theory Spec2Isabelle
  imports Complex_Main
begin

section \<open>Proxima: a billing and inventory ledger (\<^verbatim>\<open>src/proxima/app.py\<close>)\<close>

text \<open>
  The program is a Flask application over a relational store. The store is embedded as a
  record of tables, each table a list of rows in insertion order. Python \<^verbatim>\<open>int\<close> is
  \<^typ>\<open>int\<close>. Python \<^verbatim>\<open>float\<close> columns (prices, amounts) are embedded as \<^typ>\<open>rat\<close>:
  sums, products and differences are the exact ones, and the literals \<^verbatim>\<open>0.20\<close> and
  \<^verbatim>\<open>1e-6\<close> are read as the decimal numbers they denote. Rounding of binary floating
  point is outside the embedding. Dates are day ordinals.
\<close>

subsection \<open>Models\<close>

type_synonym pydate = int

record Client =
  c_id :: int
  nom_client :: string
  tel :: "string option"
  adresse :: "string option"
  ville :: "string option"

record Product =
  p_id :: int
  ref_produit :: string
  nom_produit :: string
  prix_achat :: rat
  prix_std :: rat

record StockEntry =
  se_id :: int
  se_product_id :: int
  se_date :: pydate
  qte_entree :: int

record Facture =
  f_id :: int
  f_numero :: string
  date_vente :: pydate
  f_client_id :: int
  nbr_colis :: int
  finalized :: bool

record InvoiceLine =
  il_id :: int
  il_facture_id :: int
  il_product_id :: int
  il_prix_vnt :: rat
  qte_vnd :: int

record ReturnLine =
  rl_id :: int
  rl_facture_id :: int
  rl_product_id :: int
  rl_prix_vnt :: rat
  qte_retour :: int
  rl_date :: pydate

record Payment =
  pay_id :: int
  pay_numero :: string
  pay_client_id :: int
  date_pymt :: pydate
  montant_pymt :: rat
  banque :: "string option"
  date_echeance :: "pydate option"

record PaymentApplication =
  pa_id :: int
  pa_payment_id :: int
  pa_facture_id :: int
  amount_applied :: rat

text \<open>The committed state of the database: one list of rows per table.\<close>

record db =
  clients :: "Client list"
  products :: "Product list"
  stock_entries :: "StockEntry list"
  factures :: "Facture list"
  invoice_lines :: "InvoiceLine list"
  return_lines :: "ReturnLine list"
  payments :: "Payment list"
  payment_applications :: "PaymentApplication list"

definition empty_db :: db where
  "empty_db = \<lparr>clients = [], products = [], stock_entries = [], factures = [],
     invoice_lines = [], return_lines = [], payments = [], payment_applications = []\<rparr>"


subsection \<open>Query primitives\<close>

text \<open>Python's \<^verbatim>\<open>sum\<close>: a left fold of \<^verbatim>\<open>+\<close> that starts at \<^verbatim>\<open>0\<close>.\<close>

definition py_sum :: "'a::monoid_add list \<Rightarrow> 'a" where
  "py_sum xs = foldl (+) 0 xs"



text \<open>Python's \<^verbatim>\<open>v or d\<close> on a number: \<^verbatim>\<open>d\<close> when \<^verbatim>\<open>v\<close> is zero.\<close>

definition py_or :: "'a::zero \<Rightarrow> 'a \<Rightarrow> 'a" where
  "py_or v d = (if v = 0 then d else v)"

text \<open>SQL \<^verbatim>\<open>COUNT(*)\<close> over the selected rows.\<close>

definition sql_count :: "'a list \<Rightarrow> int" where
  "sql_count xs = int (length xs)"


subsection \<open>Relationships and invoice totals\<close>

text \<open>\<^verbatim>\<open>Facture.lines\<close>, \<^verbatim>\<open>Facture.returns\<close> and \<^verbatim>\<open>Payment.applications\<close>: the rows
  whose foreign key is the owner's primary key.\<close>

definition facture_lines :: "db \<Rightarrow> Facture \<Rightarrow> InvoiceLine list" where
  "facture_lines d f = filter (\<lambda>l. il_facture_id l = f_id f) (invoice_lines d)"

definition facture_returns :: "db \<Rightarrow> Facture \<Rightarrow> ReturnLine list" where
  "facture_returns d f = filter (\<lambda>r. rl_facture_id r = f_id f) (return_lines d)"


definition line_total :: "InvoiceLine \<Rightarrow> rat" where
  "line_total l = il_prix_vnt l * of_int (qte_vnd l)"

definition return_total :: "ReturnLine \<Rightarrow> rat" where
  "return_total r = rl_prix_vnt r * of_int (qte_retour r)"

definition total_ht :: "db \<Rightarrow> Facture \<Rightarrow> rat" where
  "total_ht d f = py_sum (map line_total (facture_lines d f))"

definition total_tva :: "db \<Rightarrow> Facture \<Rightarrow> rat \<Rightarrow> rat" where
  "total_tva d f tva_rate = total_ht d f * tva_rate"

definition total_ttc :: "db \<Rightarrow> Facture \<Rightarrow> rat \<Rightarrow> rat" where
  "total_ttc d f tva_rate = total_ht d f + total_tva d f tva_rate"

subsection \<open>Calculators\<close>









subsection \<open>Requests, responses and the storage layer\<close>

text \<open>
  A handler answers with a redirect (to an endpoint, after at most one flashed message of
  a category) or aborts with an HTTP status: 400 for a missing form key, 404 from
  \<^verbatim>\<open>get_or_404\<close>, 500 for an exception that no handler catches.
\<close>

datatype flash = Success | Warning | Danger

datatype response = Redirect string "flash option" | Abort nat

text \<open>
  A form field that the handler converts with \<^verbatim>\<open>int\<close>, \<^verbatim>\<open>float\<close> or
  \<^verbatim>\<open>strptime\<close>: the key is missing, its text is empty, its text converts to a value,
  or its text is not empty and the conversion raises \<^verbatim>\<open>ValueError\<close>.
\<close>

datatype 'a field = Missing | Blank | Given 'a | Malformed

text \<open>\<^verbatim>\<open>request.form[k]\<close> on a text field.\<close>

definition form_str :: "string option \<Rightarrow> response + string" where
  "form_str v = (case v of None \<Rightarrow> Inl (Abort 400) | Some s \<Rightarrow> Inr s)"

text \<open>\<^verbatim>\<open>conv(request.form[k])\<close>.\<close>

definition form_conv :: "'a field \<Rightarrow> response + 'a" where
  "form_conv v = (case v of Missing \<Rightarrow> Inl (Abort 400) | Blank \<Rightarrow> Inl (Abort 500)
     | Given x \<Rightarrow> Inr x | Malformed \<Rightarrow> Inl (Abort 500))"

text \<open>\<^verbatim>\<open>conv(request.form.get(k, dflt) or 0)\<close>, where \<^verbatim>\<open>conv dflt\<close> is \<open>dflt\<close>.\<close>

definition form_conv_or :: "'a::zero field \<Rightarrow> 'a \<Rightarrow> response + 'a" where
  "form_conv_or v dflt = (case v of Missing \<Rightarrow> Inr (py_or dflt 0) | Blank \<Rightarrow> Inr 0
     | Given x \<Rightarrow> Inr x | Malformed \<Rightarrow> Inl (Abort 500))"

text \<open>Truth of \<^verbatim>\<open>request.form.get(k)\<close>: a text that is present and not empty.\<close>

definition field_truthy :: "'a field \<Rightarrow> bool" where
  "field_truthy v = (case v of Missing \<Rightarrow> False | Blank \<Rightarrow> False | _ \<Rightarrow> True)"

text \<open>\<^verbatim>\<open>str.strip()\<close>, on the ASCII white space characters.\<close>

definition py_isspace :: "char \<Rightarrow> bool" where
  "py_isspace c = (let n = of_char c :: nat in (9 \<le> n \<and> n \<le> 13) \<or> (28 \<le> n \<and> n \<le> 32))"

definition py_strip :: "string \<Rightarrow> string" where
  "py_strip s = rev (dropWhile py_isspace (rev (dropWhile py_isspace s)))"

text \<open>
  The storage layer, as the models declare it: an integer primary key that the engine
  assigns on insert (one more than the largest in the table, 1 for an empty table), and
  the \<^verbatim>\<open>unique=True\<close> columns \<^verbatim>\<open>products.ref_produit\<close>, \<^verbatim>\<open>factures.numero\<close>
  and \<^verbatim>\<open>payments.numero\<close>. A commit that violates a unique column raises. Foreign keys
  are not checked by the engine: the default engine of the source is SQLite, which does
  not enforce them unless asked to.
\<close>

datatype db_error = IntegrityError

definition next_id :: "int list \<Rightarrow> int" where
  "next_id ids = fold max ids 0 + 1"

definition get_client :: "db \<Rightarrow> int \<Rightarrow> Client option" where
  "get_client d i = find (\<lambda>c. c_id c = i) (clients d)"

definition get_product :: "db \<Rightarrow> int \<Rightarrow> Product option" where
  "get_product d i = find (\<lambda>p. p_id p = i) (products d)"

definition get_facture :: "db \<Rightarrow> int \<Rightarrow> Facture option" where
  "get_facture d i = find (\<lambda>f. f_id f = i) (factures d)"

definition get_payment :: "db \<Rightarrow> int \<Rightarrow> Payment option" where
  "get_payment d i = find (\<lambda>p. pay_id p = i) (payments d)"

text \<open>\<^verbatim>\<open>db.session.add(x)\<close> followed by \<^verbatim>\<open>db.session.commit()\<close>: the row as stored
  (with its key) and the new state, or the error of the commit.\<close>

definition add_client :: "db \<Rightarrow> Client \<Rightarrow> Client \<times> db" where
  "add_client d c =
     (let c' = c\<lparr>c_id := next_id (map c_id (clients d))\<rparr>
      in (c', d\<lparr>clients := clients d @ [c']\<rparr>))"

definition add_product :: "db \<Rightarrow> Product \<Rightarrow> db_error + Product \<times> db" where
  "add_product d p =
     (if ref_produit p \<in> set (map ref_produit (products d)) then Inl IntegrityError
      else (let p' = p\<lparr>p_id := next_id (map p_id (products d))\<rparr>
            in Inr (p', d\<lparr>products := products d @ [p']\<rparr>)))"

definition add_stock_entry :: "db \<Rightarrow> StockEntry \<Rightarrow> StockEntry \<times> db" where
  "add_stock_entry d e =
     (let e' = e\<lparr>se_id := next_id (map se_id (stock_entries d))\<rparr>
      in (e', d\<lparr>stock_entries := stock_entries d @ [e']\<rparr>))"

definition add_facture :: "db \<Rightarrow> Facture \<Rightarrow> db_error + Facture \<times> db" where
  "add_facture d f =
     (if f_numero f \<in> set (map f_numero (factures d)) then Inl IntegrityError
      else (let f' = f\<lparr>f_id := next_id (map f_id (factures d))\<rparr>
            in Inr (f', d\<lparr>factures := factures d @ [f']\<rparr>)))"

definition add_invoice_line :: "db \<Rightarrow> InvoiceLine \<Rightarrow> InvoiceLine \<times> db" where
  "add_invoice_line d l =
     (let l' = l\<lparr>il_id := next_id (map il_id (invoice_lines d))\<rparr>
      in (l', d\<lparr>invoice_lines := invoice_lines d @ [l']\<rparr>))"

definition add_return_line :: "db \<Rightarrow> ReturnLine \<Rightarrow> ReturnLine \<times> db" where
  "add_return_line d r =
     (let r' = r\<lparr>rl_id := next_id (map rl_id (return_lines d))\<rparr>
      in (r', d\<lparr>return_lines := return_lines d @ [r']\<rparr>))"

definition add_payment :: "db \<Rightarrow> Payment \<Rightarrow> db_error + Payment \<times> db" where
  "add_payment d p =
     (if pay_numero p \<in> set (map pay_numero (payments d)) then Inl IntegrityError
      else (let p' = p\<lparr>pay_id := next_id (map pay_id (payments d))\<rparr>
            in Inr (p', d\<lparr>payments := payments d @ [p']\<rparr>)))"

definition add_payment_application :: "db \<Rightarrow> PaymentApplication \<Rightarrow> PaymentApplication \<times> db" where
  "add_payment_application d a =
     (let a' = a\<lparr>pa_id := next_id (map pa_id (payment_applications d))\<rparr>
      in (a', d\<lparr>payment_applications := payment_applications d @ [a']\<rparr>))"

text \<open>Attribute assignments on a loaded row followed by a commit: the row with that key is
  replaced. The commit raises when the row's unique column now equals that of another
  row; an assignment to \<^verbatim>\<open>finalized\<close> alone touches no unique column.\<close>

definition update_client :: "db \<Rightarrow> Client \<Rightarrow> db" where
  "update_client d c' = d\<lparr>clients := map (\<lambda>c. if c_id c = c_id c' then c' else c) (clients d)\<rparr>"

definition update_product :: "db \<Rightarrow> Product \<Rightarrow> db_error + db" where
  "update_product d p' =
     (if ref_produit p' \<in> set (map ref_produit (filter (\<lambda>p. p_id p \<noteq> p_id p') (products d)))
      then Inl IntegrityError
      else Inr (d\<lparr>products := map (\<lambda>p. if p_id p = p_id p' then p' else p) (products d)\<rparr>))"

definition store_facture :: "db \<Rightarrow> Facture \<Rightarrow> db" where
  "store_facture d f' = d\<lparr>factures := map (\<lambda>f. if f_id f = f_id f' then f' else f) (factures d)\<rparr>"

definition update_facture :: "db \<Rightarrow> Facture \<Rightarrow> db_error + db" where
  "update_facture d f' =
     (if f_numero f' \<in> set (map f_numero (filter (\<lambda>f. f_id f \<noteq> f_id f') (factures d)))
      then Inl IntegrityError
      else Inr (store_facture d f'))"

text \<open>\<^verbatim>\<open>db.session.delete(x)\<close> followed by a commit. The relationships
  \<^verbatim>\<open>Facture.lines\<close> and \<^verbatim>\<open>Facture.returns\<close> are declared with
  \<^verbatim>\<open>cascade="all, delete-orphan"\<close>, so their rows go with the invoice.\<close>

definition delete_client :: "db \<Rightarrow> Client \<Rightarrow> db" where
  "delete_client d c = d\<lparr>clients := filter (\<lambda>x. c_id x \<noteq> c_id c) (clients d)\<rparr>"

definition delete_product :: "db \<Rightarrow> Product \<Rightarrow> db" where
  "delete_product d p = d\<lparr>products := filter (\<lambda>x. p_id x \<noteq> p_id p) (products d)\<rparr>"

definition delete_facture :: "db \<Rightarrow> Facture \<Rightarrow> db" where
  "delete_facture d f =
     d\<lparr>factures := filter (\<lambda>x. f_id x \<noteq> f_id f) (factures d),
       invoice_lines := filter (\<lambda>l. il_facture_id l \<noteq> f_id f) (invoice_lines d),
       return_lines := filter (\<lambda>r. rl_facture_id r \<noteq> f_id f) (return_lines d)\<rparr>"

text \<open>\<^verbatim>\<open>db.session.rollback()\<close> after a failed commit: the state before the
  transaction.\<close>

definition rollback :: "db \<Rightarrow> db" where
  "rollback d = d"

subsection \<open>Forms\<close>

record client_form =
  cf_nom_client :: "string option"
  cf_tel :: "string option"
  cf_adresse :: "string option"
  cf_ville :: "string option"

record product_form =
  pf_ref_produit :: "string option"
  pf_nom_produit :: "string option"
  pf_prix_achat :: "rat field"
  pf_prix_std :: "rat field"
  pf_qte_entree :: "int field"
  pf_date_entry :: "pydate field"

record stock_entry_form =
  sf_product_id :: "int field"
  sf_date :: "pydate field"
  sf_qte_entree :: "int field"

record invoice_form =
  if_numero :: "string option"
  if_date_vente :: "pydate field"
  if_client_id :: "int field"
  if_nbr_colis :: "int field"

record line_form =
  lf_product_id :: "int field"
  lf_prix_vnt :: "rat field"
  lf_qte :: "int field"
  lf_date :: "pydate field"

record payment_form =
  yf_numero :: "string option"
  yf_client_id :: "int field"
  yf_date_pymt :: "pydate field"
  yf_montant_pymt :: "rat field"
  yf_banque :: "string option"
  yf_date_echeance :: "pydate field"

record application_form =
  af_invoice_id :: "int field"
  af_amount_applied :: "rat field"

text \<open>A conversion that raises ends the request with the state as it is at that point;
  otherwise the handler goes on with the value.\<close>

definition or_abort :: "response + 'a \<Rightarrow> db \<Rightarrow> ('a \<Rightarrow> response \<times> db) \<Rightarrow> response \<times> db" where
  "or_abort v d k = (case v of Inl r \<Rightarrow> (r, d) | Inr x \<Rightarrow> k x)"

subsection \<open>Clients\<close>

definition clients_post :: "db \<Rightarrow> client_form \<Rightarrow> response \<times> db" where
  "clients_post d form =
     or_abort (form_str (cf_nom_client form)) d (\<lambda>nom.
       let c = \<lparr>c_id = 0, nom_client = nom, tel = cf_tel form,
                adresse = cf_adresse form, ville = cf_ville form\<rparr>;
           (c', d') = add_client d c
       in (Redirect ''clients'' (Some Success), d'))"

definition client_update :: "db \<Rightarrow> int \<Rightarrow> client_form \<Rightarrow> response \<times> db" where
  "client_update d client_id form =
     (case get_client d client_id of
        None \<Rightarrow> (Abort 404, d)
      | Some c \<Rightarrow>
         (let c1 = c\<lparr>nom_client := (case cf_nom_client form of None \<Rightarrow> nom_client c | Some s \<Rightarrow> s)\<rparr>;
              c2 = c1\<lparr>tel := (case cf_tel form of None \<Rightarrow> tel c1 | Some s \<Rightarrow> Some s)\<rparr>;
              c3 = c2\<lparr>adresse := (case cf_adresse form of None \<Rightarrow> adresse c2 | Some s \<Rightarrow> Some s)\<rparr>;
              c4 = c3\<lparr>ville := (case cf_ville form of None \<Rightarrow> ville c3 | Some s \<Rightarrow> Some s)\<rparr>
          in (Redirect ''clients'' (Some Success), update_client d c4)))"

definition client_delete :: "db \<Rightarrow> int \<Rightarrow> response \<times> db" where
  "client_delete d client_id =
     (case get_client d client_id of
        None \<Rightarrow> (Abort 404, d)
      | Some c \<Rightarrow>
         (let factures_count =
                py_or (sql_count (filter (\<lambda>f. f_client_id f = c_id c) (factures d))) 0;
              payments_count =
                py_or (sql_count (filter (\<lambda>p. pay_client_id p = c_id c) (payments d))) 0
          in if factures_count \<noteq> 0 \<or> payments_count \<noteq> 0
             then (Redirect ''clients'' (Some Warning), d)
             else (Redirect ''clients'' (Some Success), delete_client d c)))"

subsection \<open>Products and stock\<close>

text \<open>The second half of \<^verbatim>\<open>products\<close> (POST), after the product is committed.\<close>

definition products_post_entry :: "db \<Rightarrow> pydate \<Rightarrow> product_form \<Rightarrow> Product \<Rightarrow> response \<times> db" where
  "products_post_entry d1 today form p =
     or_abort (form_conv_or (pf_qte_entree form) 0) d1 (\<lambda>qte.
       if qte > 0 then
         or_abort (if field_truthy (pf_date_entry form)
                   then form_conv (pf_date_entry form) else Inr today) d1 (\<lambda>dt.
           let entry = \<lparr>se_id = 0, se_product_id = p_id p, se_date = dt, qte_entree = qte\<rparr>;
               (e', d2) = add_stock_entry d1 entry
           in (Redirect ''products'' (Some Success), d2))
       else (Redirect ''products'' (Some Success), d1))"

definition products_post :: "db \<Rightarrow> pydate \<Rightarrow> product_form \<Rightarrow> response \<times> db" where
  "products_post d today form =
     or_abort (form_str (pf_ref_produit form)) d (\<lambda>ref0.
     or_abort (form_str (pf_nom_produit form)) d (\<lambda>nom.
     or_abort (form_conv_or (pf_prix_achat form) 0) d (\<lambda>pa.
     or_abort (form_conv_or (pf_prix_std form) 0) d (\<lambda>ps.
       let p = \<lparr>p_id = 0, ref_produit = py_strip ref0, nom_produit = py_strip nom,
                prix_achat = pa, prix_std = ps\<rparr>
       in (case add_product d p of
             Inl e \<Rightarrow> (Redirect ''products'' (Some Danger), rollback d)
           | Inr (p', d1) \<Rightarrow> products_post_entry d1 today form p')))))"

definition product_update :: "db \<Rightarrow> int \<Rightarrow> product_form \<Rightarrow> response \<times> db" where
  "product_update d product_id form =
     (case get_product d product_id of
        None \<Rightarrow> (Abort 404, d)
      | Some p \<Rightarrow>
         (let new_ref = py_strip (case pf_ref_produit form of None \<Rightarrow> ref_produit p | Some s \<Rightarrow> s);
              p1 = p\<lparr>ref_produit := new_ref\<rparr>;
              p2 = p1\<lparr>nom_produit := (case pf_nom_produit form of None \<Rightarrow> nom_produit p1 | Some s \<Rightarrow> s)\<rparr>
          in or_abort (form_conv_or (pf_prix_achat form) (prix_achat p2)) d (\<lambda>pa.
             or_abort (form_conv_or (pf_prix_std form) (prix_std p2)) d (\<lambda>ps.
               (case update_product d (p2\<lparr>prix_achat := pa, prix_std := ps\<rparr>) of
                  Inr d' \<Rightarrow> (Redirect ''products'' (Some Success), d')
                | Inl e \<Rightarrow> (Redirect ''products'' (Some Danger), rollback d))))))"

definition product_delete :: "db \<Rightarrow> int \<Rightarrow> response \<times> db" where
  "product_delete d product_id =
     (case get_product d product_id of
        None \<Rightarrow> (Abort 404, d)
      | Some p \<Rightarrow>
         (let used_lines =
                py_or (sql_count (filter (\<lambda>l. il_product_id l = p_id p) (invoice_lines d))) 0;
              has_entries =
                py_or (sql_count (filter (\<lambda>e. se_product_id e = p_id p) (stock_entries d))) 0
          in if used_lines \<noteq> 0 \<or> has_entries \<noteq> 0
             then (Redirect ''products'' (Some Warning), d)
             else (Redirect ''products'' (Some Success), delete_product d p)))"

definition stock_entry :: "db \<Rightarrow> stock_entry_form \<Rightarrow> response \<times> db" where
  "stock_entry d form =
     or_abort (form_conv (sf_product_id form)) d (\<lambda>pid.
     or_abort (form_conv (sf_date form)) d (\<lambda>dt.
     or_abort (form_conv (sf_qte_entree form)) d (\<lambda>qte.
       let entry = \<lparr>se_id = 0, se_product_id = pid, se_date = dt, qte_entree = qte\<rparr>;
           (e', d') = add_stock_entry d entry
       in (Redirect ''products'' (Some Success), d'))))"

subsection \<open>Invoices\<close>

definition invoice_new :: "db \<Rightarrow> invoice_form \<Rightarrow> response \<times> db" where
  "invoice_new d form =
     or_abort (form_str (if_numero form)) d (\<lambda>numero.
     or_abort (form_conv (if_date_vente form)) d (\<lambda>dv.
     or_abort (form_conv (if_client_id form)) d (\<lambda>cid.
     or_abort (form_conv_or (if_nbr_colis form) 0) d (\<lambda>colis.
       let fac = \<lparr>f_id = 0, f_numero = py_strip numero, date_vente = dv, f_client_id = cid,
                  nbr_colis = colis, finalized = False\<rparr>
       in (case add_facture d fac of
             Inl e \<Rightarrow> (Redirect ''invoice_new'' (Some Danger), rollback d)
           | Inr (fac1, d') \<Rightarrow> (Redirect ''invoice_view'' None, d'))))))"

definition invoice_update :: "db \<Rightarrow> int \<Rightarrow> invoice_form \<Rightarrow> response \<times> db" where
  "invoice_update d invoice_id form =
     (case get_facture d invoice_id of
        None \<Rightarrow> (Abort 404, d)
      | Some fac \<Rightarrow>
         (let i1 = fac\<lparr>f_numero := py_strip (case if_numero form of None \<Rightarrow> f_numero fac | Some s \<Rightarrow> s)\<rparr>
          in or_abort (if field_truthy (if_date_vente form)
                       then form_conv (if_date_vente form) else Inr (date_vente i1)) d (\<lambda>dv.
             or_abort (if field_truthy (if_client_id form)
                       then form_conv (if_client_id form) else Inr (f_client_id i1)) d (\<lambda>cid.
             or_abort (if if_nbr_colis form \<noteq> Missing
                       then form_conv_or (if_nbr_colis form) 0 else Inr (nbr_colis i1)) d (\<lambda>colis.
               (case update_facture d (i1\<lparr>date_vente := dv, f_client_id := cid, nbr_colis := colis\<rparr>) of
                  Inr d' \<Rightarrow> (Redirect ''invoice_new'' (Some Success), d')
                | Inl e \<Rightarrow> (Redirect ''invoice_new'' (Some Danger), rollback d)))))))"

definition invoice_delete :: "db \<Rightarrow> int \<Rightarrow> response \<times> db" where
  "invoice_delete d invoice_id =
     (case get_facture d invoice_id of
        None \<Rightarrow> (Abort 404, d)
      | Some fac \<Rightarrow>
         (let apps =
                py_or (sql_count (filter (\<lambda>a. pa_facture_id a = f_id fac)
                                    (payment_applications d))) 0
          in if apps \<noteq> 0
             then (Redirect ''invoice_new'' (Some Warning), d)
             else (Redirect ''invoice_new'' (Some Success), delete_facture d fac)))"

definition invoice_toggle_finalize :: "db \<Rightarrow> int \<Rightarrow> response \<times> db" where
  "invoice_toggle_finalize d invoice_id =
     (case get_facture d invoice_id of
        None \<Rightarrow> (Abort 404, d)
      | Some fac \<Rightarrow>
         (Redirect ''invoice_new'' (Some Success),
          store_facture d (fac\<lparr>finalized := \<not> finalized fac\<rparr>)))"

definition invoice_add_line :: "db \<Rightarrow> int \<Rightarrow> line_form \<Rightarrow> response \<times> db" where
  "invoice_add_line d invoice_id form =
     (case get_facture d invoice_id of
        None \<Rightarrow> (Abort 404, d)
      | Some fac \<Rightarrow>
         or_abort (form_conv (lf_product_id form)) d (\<lambda>pid.
         or_abort (form_conv (lf_prix_vnt form)) d (\<lambda>prix.
         or_abort (form_conv (lf_qte form)) d (\<lambda>qte.
           let line = \<lparr>il_id = 0, il_facture_id = f_id fac, il_product_id = pid,
                       il_prix_vnt = prix, qte_vnd = qte\<rparr>;
               (l', d') = add_invoice_line d line
           in (Redirect ''invoice_view'' None, d')))))"

definition invoice_add_return :: "db \<Rightarrow> int \<Rightarrow> line_form \<Rightarrow> response \<times> db" where
  "invoice_add_return d invoice_id form =
     (case get_facture d invoice_id of
        None \<Rightarrow> (Abort 404, d)
      | Some fac \<Rightarrow>
         or_abort (form_conv (lf_product_id form)) d (\<lambda>pid.
         or_abort (form_conv (lf_prix_vnt form)) d (\<lambda>prix.
         or_abort (form_conv (lf_qte form)) d (\<lambda>qte.
         or_abort (form_conv (lf_date form)) d (\<lambda>dt.
           let ret = \<lparr>rl_id = 0, rl_facture_id = f_id fac, rl_product_id = pid,
                      rl_prix_vnt = prix, qte_retour = qte, rl_date = dt\<rparr>;
               (r', d') = add_return_line d ret
           in (Redirect ''invoice_view'' None, d'))))))"

definition invoice_finalize :: "db \<Rightarrow> int \<Rightarrow> response \<times> db" where
  "invoice_finalize d invoice_id =
     (case get_facture d invoice_id of
        None \<Rightarrow> (Abort 404, d)
      | Some fac \<Rightarrow>
         (Redirect ''invoice_view'' (Some Success),
          store_facture d (fac\<lparr>finalized := True\<rparr>)))"

subsection \<open>Payments\<close>

definition payment_new :: "db \<Rightarrow> payment_form \<Rightarrow> response \<times> db" where
  "payment_new d form =
     or_abort (form_str (yf_numero form)) d (\<lambda>numero.
     or_abort (form_conv (yf_client_id form)) d (\<lambda>cid.
     or_abort (form_conv (yf_date_pymt form)) d (\<lambda>dp.
     or_abort (form_conv (yf_montant_pymt form)) d (\<lambda>montant.
     or_abort (if field_truthy (yf_date_echeance form)
               then map_sum id Some (form_conv (yf_date_echeance form)) else Inr None) d (\<lambda>ech.
       let pay = \<lparr>pay_id = 0, pay_numero = numero, pay_client_id = cid, date_pymt = dp,
                  montant_pymt = montant, banque = yf_banque form, date_echeance = ech\<rparr>
       in (case add_payment d pay of
             Inl e \<Rightarrow> (Redirect ''payment_new'' (Some Danger), rollback d)
           | Inr (pay1, d') \<Rightarrow> (Redirect ''payment_view'' None, d')))))))"

text \<open>\<^verbatim>\<open>payment_view\<close>, POST: apply a part of the payment to an invoice.\<close>

definition payment_view_post :: "db \<Rightarrow> int \<Rightarrow> application_form \<Rightarrow> response \<times> db" where
  "payment_view_post d payment_id form =
     (case get_payment d payment_id of
        None \<Rightarrow> (Abort 404, d)
      | Some pay \<Rightarrow>
         or_abort (form_conv (af_invoice_id form)) d (\<lambda>iid.
         or_abort (form_conv (af_amount_applied form)) d (\<lambda>amount.
           let appl = \<lparr>pa_id = 0, pa_payment_id = pay_id pay, pa_facture_id = iid,
                       amount_applied = amount\<rparr>;
               (a', d') = add_payment_application d appl
           in (Redirect ''payment_view'' (Some Success), d'))))"





subsection \<open>The write requests of the application\<close>

text \<open>Every route of the source that adds, changes or deletes a row, with its URL
  parameter and its form. \<open>today\<close> is the clock's date when the request is served.
  The other routes (pages, exports, receipts, login and logout) write no row, and the
  requests are taken as they reach the handlers, past the login check.\<close>

datatype request =
    ClientsPost client_form
  | ClientUpdate int client_form
  | ClientDelete int
  | ProductsPost product_form
  | ProductUpdate int product_form
  | ProductDelete int
  | StockEntryPost stock_entry_form
  | InvoiceNew invoice_form
  | InvoiceUpdate int invoice_form
  | InvoiceDelete int
  | InvoiceToggleFinalize int
  | InvoiceAddLine int line_form
  | InvoiceAddReturn int line_form
  | InvoiceFinalize int
  | PaymentNew payment_form
  | PaymentViewPost int application_form

fun handle :: "pydate \<Rightarrow> db \<Rightarrow> request \<Rightarrow> response \<times> db" where
  "handle today d (ClientsPost form) = clients_post d form"
| "handle today d (ClientUpdate i form) = client_update d i form"
| "handle today d (ClientDelete i) = client_delete d i"
| "handle today d (ProductsPost form) = products_post d today form"
| "handle today d (ProductUpdate i form) = product_update d i form"
| "handle today d (ProductDelete i) = product_delete d i"
| "handle today d (StockEntryPost form) = stock_entry d form"
| "handle today d (InvoiceNew form) = invoice_new d form"
| "handle today d (InvoiceUpdate i form) = invoice_update d i form"
| "handle today d (InvoiceDelete i) = invoice_delete d i"
| "handle today d (InvoiceToggleFinalize i) = invoice_toggle_finalize d i"
| "handle today d (InvoiceAddLine i form) = invoice_add_line d i form"
| "handle today d (InvoiceAddReturn i form) = invoice_add_return d i form"
| "handle today d (InvoiceFinalize i) = invoice_finalize d i"
| "handle today d (PaymentNew form) = payment_new d form"
| "handle today d (PaymentViewPost i form) = payment_view_post d i form"

section \<open>Example states\<close>





text \<open>Client 1 has two invoices, client 2 has a payment, client 3 has neither. Product 1
  is on an invoice line, product 2 has a stock entry, product 3 is only on a return
  line. Invoice 1 has an application; invoice 2 has none, and has a line and a return
  line.\<close>

definition db_guard :: db where
  "db_guard = empty_db\<lparr>
     clients :=
       [\<lparr>c_id = 1, nom_client = ''A'', tel = None, adresse = None, ville = None\<rparr>,
        \<lparr>c_id = 2, nom_client = ''B'', tel = None, adresse = None, ville = None\<rparr>,
        \<lparr>c_id = 3, nom_client = ''C'', tel = None, adresse = None, ville = None\<rparr>],
     products :=
       [\<lparr>p_id = 1, ref_produit = ''R1'', nom_produit = ''N1'', prix_achat = 1, prix_std = 2\<rparr>,
        \<lparr>p_id = 2, ref_produit = ''R2'', nom_produit = ''N2'', prix_achat = 1, prix_std = 2\<rparr>,
        \<lparr>p_id = 3, ref_produit = ''R3'', nom_produit = ''N3'', prix_achat = 1, prix_std = 2\<rparr>],
     stock_entries :=
       [\<lparr>se_id = 1, se_product_id = 2, se_date = 0, qte_entree = 6\<rparr>],
     factures :=
       [\<lparr>f_id = 1, f_numero = ''F1'', date_vente = 0, f_client_id = 1, nbr_colis = 0,
         finalized = True\<rparr>,
        \<lparr>f_id = 2, f_numero = ''F2'', date_vente = 0, f_client_id = 1, nbr_colis = 0,
         finalized = False\<rparr>],
     invoice_lines :=
       [\<lparr>il_id = 1, il_facture_id = 1, il_product_id = 1, il_prix_vnt = 3, qte_vnd = 2\<rparr>,
        \<lparr>il_id = 2, il_facture_id = 2, il_product_id = 1, il_prix_vnt = 3, qte_vnd = 1\<rparr>],
     return_lines :=
       [\<lparr>rl_id = 1, rl_facture_id = 2, rl_product_id = 3, rl_prix_vnt = 3, qte_retour = 1,
         rl_date = 0\<rparr>],
     payments :=
       [\<lparr>pay_id = 1, pay_numero = ''P1'', pay_client_id = 2, date_pymt = 0, montant_pymt = 5,
         banque = None, date_echeance = None\<rparr>],
     payment_applications :=
       [\<lparr>pa_id = 1, pa_payment_id = 1, pa_facture_id = 1, amount_applied = 5\<rparr>]\<rparr>"





text \<open>Every invoice that has a row before and after keeps its \<open>finalized\<close> flag.\<close>

definition flags_kept :: "db \<Rightarrow> db \<Rightarrow> bool" where
  "flags_kept d d' =
     (\<forall>i f f'. get_facture d i = Some f \<and> get_facture d' i = Some f' \<longrightarrow>
        finalized f' = finalized f)"

text \<open>A form that renumbers an invoice and moves it to client 3.\<close>

definition form_move_invoice :: invoice_form where
  "form_move_invoice = \<lparr>if_numero = Some ''F9'', if_date_vente = Blank, if_client_id = Given 3,
     if_nbr_colis = Given 4\<rparr>"

text \<open>The states of the store that the application can be in: it starts with empty
  tables, and every write request is served by its handler.\<close>

inductive reachable :: "db \<Rightarrow> bool" where
  start: "reachable empty_db"
| request: "reachable d \<Longrightarrow> reachable (snd (handle today d r))"

section \<open>Properties\<close>

subsection \<open>Sums\<close>




subsection \<open>Invoice totals\<close>



subsection \<open>Payment remaining\<close>



subsection \<open>Joins on a primary key\<close>





subsection \<open>Client balance and stock\<close>

lemma total_ttc_frame_apps [simp]:
  "total_ttc (d\<lparr>payment_applications := x\<rparr>) f r = total_ttc d f r"
  by (simp add: total_ttc_def total_tva_def total_ht_def facture_lines_def)










subsection \<open>Payment receipt\<close>



subsection \<open>Deletion guards\<close>

lemma find_key_Some:
  "find (\<lambda>r. key r = k) rs = Some r \<Longrightarrow> r \<in> set rs \<and> key r = k"
  by (induction rs) (auto split: if_splits)

lemma find_key_filter_None: "find (\<lambda>r. key r = k) (filter (\<lambda>r. key r \<noteq> k) rs) = None"
  by (simp add: find_None_iff)

lemma count_zero: "(py_or (sql_count (filter P xs)) 0 = 0) = (\<forall>x \<in> set xs. \<not> P x)"
  by (simp add: py_or_def sql_count_def filter_empty_conv)

text \<open>
  C5. Deleting a client that an invoice or a payment references is refused (a warning,
  the state as it was); deleting a client that none references removes the client's
  row and nothing else. Deleting a product that an invoice line or a stock entry
  references is refused; otherwise the product's row is removed. Deleting an invoice
  that a payment application references is refused; otherwise the invoice's row is
  removed together with its invoice lines and its return lines. An identifier with no
  row is answered 404, the state as it was. After a deletion that went through, the
  identifier has no row.
\<close>

theorem deletion_guards:
  "client_delete d cid =
     (case get_client d cid of
        None \<Rightarrow> (Abort 404, d)
      | Some c \<Rightarrow>
         if (\<exists>f \<in> set (factures d). f_client_id f = cid) \<or> (\<exists>p \<in> set (payments d). pay_client_id p = cid)
         then (Redirect ''clients'' (Some Warning), d)
         else (Redirect ''clients'' (Some Success),
               d\<lparr>clients := filter (\<lambda>x. c_id x \<noteq> cid) (clients d)\<rparr>))
   \<and> product_delete d pid =
     (case get_product d pid of
        None \<Rightarrow> (Abort 404, d)
      | Some p \<Rightarrow>
         if (\<exists>l \<in> set (invoice_lines d). il_product_id l = pid) \<or>
            (\<exists>e \<in> set (stock_entries d). se_product_id e = pid)
         then (Redirect ''products'' (Some Warning), d)
         else (Redirect ''products'' (Some Success),
               d\<lparr>products := filter (\<lambda>x. p_id x \<noteq> pid) (products d)\<rparr>))
   \<and> invoice_delete d iid =
     (case get_facture d iid of
        None \<Rightarrow> (Abort 404, d)
      | Some fac \<Rightarrow>
         if \<exists>a \<in> set (payment_applications d). pa_facture_id a = iid
         then (Redirect ''invoice_new'' (Some Warning), d)
         else (Redirect ''invoice_new'' (Some Success),
               d\<lparr>factures := filter (\<lambda>x. f_id x \<noteq> iid) (factures d),
                 invoice_lines := filter (\<lambda>l. il_facture_id l \<noteq> iid) (invoice_lines d),
                 return_lines := filter (\<lambda>r. rl_facture_id r \<noteq> iid) (return_lines d)\<rparr>))
   \<and> get_client (d\<lparr>clients := filter (\<lambda>x. c_id x \<noteq> cid) (clients d)\<rparr>) cid = None
   \<and> get_product (d\<lparr>products := filter (\<lambda>x. p_id x \<noteq> pid) (products d)\<rparr>) pid = None
   \<and> get_facture (d\<lparr>factures := filter (\<lambda>x. f_id x \<noteq> iid) (factures d),
                 invoice_lines := filter (\<lambda>l. il_facture_id l \<noteq> iid) (invoice_lines d),
                 return_lines := filter (\<lambda>r. rl_facture_id r \<noteq> iid) (return_lines d)\<rparr>) iid = None"
proof -
  have c: "client_delete d cid =
     (case get_client d cid of
        None \<Rightarrow> (Abort 404, d)
      | Some c \<Rightarrow>
         if (\<exists>f \<in> set (factures d). f_client_id f = cid) \<or> (\<exists>p \<in> set (payments d). pay_client_id p = cid)
         then (Redirect ''clients'' (Some Warning), d)
         else (Redirect ''clients'' (Some Success),
               d\<lparr>clients := filter (\<lambda>x. c_id x \<noteq> cid) (clients d)\<rparr>))"
  proof (cases "get_client d cid")
    case None
    then show ?thesis by (simp add: client_delete_def)
  next
    case (Some c)
    then have "c_id c = cid" unfolding get_client_def using find_key_Some by fast
    with Some show ?thesis
      by (simp add: client_delete_def Let_def count_zero delete_client_def)
  qed
  have p: "product_delete d pid =
     (case get_product d pid of
        None \<Rightarrow> (Abort 404, d)
      | Some p \<Rightarrow>
         if (\<exists>l \<in> set (invoice_lines d). il_product_id l = pid) \<or>
            (\<exists>e \<in> set (stock_entries d). se_product_id e = pid)
         then (Redirect ''products'' (Some Warning), d)
         else (Redirect ''products'' (Some Success),
               d\<lparr>products := filter (\<lambda>x. p_id x \<noteq> pid) (products d)\<rparr>))"
  proof (cases "get_product d pid")
    case None
    then show ?thesis by (simp add: product_delete_def)
  next
    case (Some p)
    then have "p_id p = pid" unfolding get_product_def using find_key_Some by fast
    with Some show ?thesis
      by (simp add: product_delete_def Let_def count_zero delete_product_def)
  qed
  have i: "invoice_delete d iid =
     (case get_facture d iid of
        None \<Rightarrow> (Abort 404, d)
      | Some fac \<Rightarrow>
         if \<exists>a \<in> set (payment_applications d). pa_facture_id a = iid
         then (Redirect ''invoice_new'' (Some Warning), d)
         else (Redirect ''invoice_new'' (Some Success),
               d\<lparr>factures := filter (\<lambda>x. f_id x \<noteq> iid) (factures d),
                 invoice_lines := filter (\<lambda>l. il_facture_id l \<noteq> iid) (invoice_lines d),
                 return_lines := filter (\<lambda>r. rl_facture_id r \<noteq> iid) (return_lines d)\<rparr>))"
  proof (cases "get_facture d iid")
    case None
    then show ?thesis by (simp add: invoice_delete_def)
  next
    case (Some fac)
    then have "f_id fac = iid" unfolding get_facture_def using find_key_Some by fast
    with Some show ?thesis
      by (simp add: invoice_delete_def Let_def count_zero delete_facture_def)
  qed
  have gc: "get_client (d\<lparr>clients := filter (\<lambda>x. c_id x \<noteq> cid) (clients d)\<rparr>) cid = None"
    by (simp add: get_client_def find_key_filter_None)
  have gp: "get_product (d\<lparr>products := filter (\<lambda>x. p_id x \<noteq> pid) (products d)\<rparr>) pid = None"
    by (simp add: get_product_def find_key_filter_None)
  have gi: "get_facture (d\<lparr>factures := filter (\<lambda>x. f_id x \<noteq> iid) (factures d),
                 invoice_lines := filter (\<lambda>l. il_facture_id l \<noteq> iid) (invoice_lines d),
                 return_lines := filter (\<lambda>r. rl_facture_id r \<noteq> iid) (return_lines d)\<rparr>) iid = None"
    by (simp add: get_facture_def find_key_filter_None)
  from c p i gc gp gi show ?thesis by blast
qed

theorem deletion_guards_witness:
  "client_delete db_guard 1 = (Redirect ''clients'' (Some Warning), db_guard)
   \<and> client_delete db_guard 2 = (Redirect ''clients'' (Some Warning), db_guard)
   \<and> client_delete db_guard 3 =
       (Redirect ''clients'' (Some Success), db_guard\<lparr>clients := take 2 (clients db_guard)\<rparr>)
   \<and> client_delete db_guard 9 = (Abort 404, db_guard)
   \<and> product_delete db_guard 1 = (Redirect ''products'' (Some Warning), db_guard)
   \<and> product_delete db_guard 2 = (Redirect ''products'' (Some Warning), db_guard)
   \<and> product_delete db_guard 3 =
       (Redirect ''products'' (Some Success), db_guard\<lparr>products := take 2 (products db_guard)\<rparr>)
   \<and> invoice_delete db_guard 1 = (Redirect ''invoice_new'' (Some Warning), db_guard)
   \<and> invoice_delete db_guard 2 =
       (Redirect ''invoice_new'' (Some Success),
        db_guard\<lparr>factures := take 1 (factures db_guard),
                 invoice_lines := take 1 (invoice_lines db_guard), return_lines := []\<rparr>)"
proof -
  note ev = db_guard_def empty_db_def get_client_def get_product_def get_facture_def
  have c1: "client_delete db_guard 1 = (Redirect ''clients'' (Some Warning), db_guard)"
    using deletion_guards [of db_guard 1 1 1] by (simp add: ev)
  have c2: "client_delete db_guard 2 = (Redirect ''clients'' (Some Warning), db_guard)"
    using deletion_guards [of db_guard 2 1 1] by (simp add: ev)
  have c3: "client_delete db_guard 3 =
       (Redirect ''clients'' (Some Success), db_guard\<lparr>clients := take 2 (clients db_guard)\<rparr>)"
    using deletion_guards [of db_guard 3 1 1] by (simp add: ev)
  have c9: "client_delete db_guard 9 = (Abort 404, db_guard)"
    using deletion_guards [of db_guard 9 1 1] by (simp add: ev)
  have p1: "product_delete db_guard 1 = (Redirect ''products'' (Some Warning), db_guard)"
    using deletion_guards [of db_guard 1 1 1] by (simp add: ev)
  have p2: "product_delete db_guard 2 = (Redirect ''products'' (Some Warning), db_guard)"
    using deletion_guards [of db_guard 1 2 1] by (simp add: ev)
  have p3: "product_delete db_guard 3 =
       (Redirect ''products'' (Some Success), db_guard\<lparr>products := take 2 (products db_guard)\<rparr>)"
    using deletion_guards [of db_guard 1 3 1] by (simp add: ev)
  have i1: "invoice_delete db_guard 1 = (Redirect ''invoice_new'' (Some Warning), db_guard)"
    using deletion_guards [of db_guard 1 1 1] by (simp add: ev)
  have i2: "invoice_delete db_guard 2 =
       (Redirect ''invoice_new'' (Some Success),
        db_guard\<lparr>factures := take 1 (factures db_guard),
                 invoice_lines := take 1 (invoice_lines db_guard), return_lines := []\<rparr>)"
    using deletion_guards [of db_guard 1 1 2] by (simp add: ev)
  from c1 c2 c3 c9 p1 p2 p3 i1 i2 show ?thesis by blast
qed

subsection \<open>Failed creations\<close>







subsection \<open>Product creation\<close>




subsection \<open>Invoice finalization\<close>

lemma flags_kept_same: "factures d' = factures d \<Longrightarrow> flags_kept d d'"
  by (auto simp add: flags_kept_def get_facture_def)

lemma find_append_Some: "find P xs = Some x \<Longrightarrow> find P (xs @ ys) = Some x"
  by (induction xs) (auto split: if_splits)

lemma flags_kept_append:
  assumes "factures d' = factures d @ fs"
  shows "flags_kept d d'"
proof -
  have "f' = f" if "get_facture d i = Some f" "get_facture d' i = Some f'" for i f f'
    using that assms find_append_Some [of "\<lambda>f. f_id f = i" "factures d" f fs]
    by (simp add: get_facture_def)
  then show ?thesis unfolding flags_kept_def by blast
qed

lemma find_filter_imp: "(\<And>x. P x \<Longrightarrow> Q x) \<Longrightarrow> find P (filter Q xs) = find P xs"
  by (induction xs) auto

lemma flags_kept_filter:
  assumes "factures d' = filter (\<lambda>x. f_id x \<noteq> k) (factures d)"
  shows "flags_kept d d'"
proof -
  have "f' = f" if "get_facture d i = Some f" "get_facture d' i = Some f'" for i f f'
  proof (cases "i = k")
    case True
    with that(2) assms show ?thesis
      by (simp add: get_facture_def find_key_filter_None)
  next
    case False
    then have "find (\<lambda>f. f_id f = i) (filter (\<lambda>x. f_id x \<noteq> k) (factures d))
                 = find (\<lambda>f. f_id f = i) (factures d)"
      by (intro find_filter_imp) simp
    with that assms show ?thesis by (simp add: get_facture_def)
  qed
  then show ?thesis unfolding flags_kept_def by blast
qed

lemma find_map_key:
  assumes "\<And>x. key (g x) = key x"
  shows "find (\<lambda>x. key x = k) (map g xs) = map_option g (find (\<lambda>x. key x = k) xs)"
  by (induction xs) (simp_all add: assms)

lemma get_facture_store:
  "get_facture (store_facture d fac') i =
     map_option (\<lambda>f. if f_id f = f_id fac' then fac' else f) (get_facture d i)"
  unfolding get_facture_def store_facture_def
  by (simp add: find_map_key [where key = f_id])

lemma flags_kept_store:
  assumes "get_facture d (f_id fac') = Some fac" and "finalized fac' = finalized fac"
  shows "flags_kept d (store_facture d fac')"
proof -
  have "finalized f' = finalized f"
    if "get_facture d i = Some f" "get_facture (store_facture d fac') i = Some f'" for i f f'
  proof (cases "f_id f = f_id fac'")
    case True
    from that(1) have "f_id f = i" unfolding get_facture_def using find_key_Some by fast
    with True that(1) assms(1) have "f = fac" by simp
    moreover from that True have "f' = fac'" by (simp add: get_facture_store)
    ultimately show ?thesis using assms(2) by simp
  next
    case False
    with that show ?thesis by (simp add: get_facture_store)
  qed
  then show ?thesis unfolding flags_kept_def by blast
qed

lemma clients_post_factures: "factures (snd (clients_post d form)) = factures d"
  by (simp add: clients_post_def or_abort_def add_client_def Let_def split: sum.splits)

lemma client_update_factures: "factures (snd (client_update d i form)) = factures d"
  by (simp add: client_update_def update_client_def Let_def split: option.splits)

lemma client_delete_factures: "factures (snd (client_delete d i)) = factures d"
  by (simp add: client_delete_def delete_client_def Let_def split: option.splits)

lemma products_post_entry_factures:
  "factures (snd (products_post_entry d1 today form p)) = factures d1"
  by (simp add: products_post_entry_def or_abort_def add_stock_entry_def Let_def
      split: sum.splits)

lemma products_post_factures: "factures (snd (products_post d today form)) = factures d"
  by (simp add: products_post_def or_abort_def add_product_def rollback_def Let_def
      products_post_entry_factures split: sum.splits)

lemma product_update_factures: "factures (snd (product_update d i form)) = factures d"
  by (simp add: product_update_def or_abort_def update_product_def rollback_def Let_def
      split: option.splits sum.splits)

lemma product_delete_factures: "factures (snd (product_delete d i)) = factures d"
  by (simp add: product_delete_def delete_product_def Let_def split: option.splits)

lemma stock_entry_factures: "factures (snd (stock_entry d form)) = factures d"
  by (simp add: stock_entry_def or_abort_def add_stock_entry_def Let_def split: sum.splits)

lemma invoice_add_line_factures: "factures (snd (invoice_add_line d i form)) = factures d"
  by (simp add: invoice_add_line_def or_abort_def add_invoice_line_def Let_def
      split: option.splits sum.splits)

lemma invoice_add_return_factures: "factures (snd (invoice_add_return d i form)) = factures d"
  by (simp add: invoice_add_return_def or_abort_def add_return_line_def Let_def
      split: option.splits sum.splits)

lemma payment_new_factures: "factures (snd (payment_new d form)) = factures d"
  by (simp add: payment_new_def or_abort_def add_payment_def rollback_def Let_def
      split: sum.splits)

lemma payment_view_post_factures: "factures (snd (payment_view_post d i form)) = factures d"
  by (simp add: payment_view_post_def or_abort_def add_payment_application_def Let_def
      split: option.splits sum.splits)


lemma invoice_new_flags: "flags_kept d (snd (invoice_new d form))"
proof -
  have "factures (snd (invoice_new d form)) = factures d
        \<or> (\<exists>f. factures (snd (invoice_new d form)) = factures d @ [f])"
    by (auto simp add: invoice_new_def or_abort_def add_facture_def rollback_def Let_def
        split: sum.splits)
  then show ?thesis using flags_kept_same flags_kept_append by blast
qed

lemma invoice_delete_flags: "flags_kept d (snd (invoice_delete d i))"
proof -
  have "factures (snd (invoice_delete d i)) = factures d
        \<or> (\<exists>k. factures (snd (invoice_delete d i)) = filter (\<lambda>x. f_id x \<noteq> k) (factures d))"
    by (auto simp add: invoice_delete_def delete_facture_def Let_def split: option.splits)
  then show ?thesis using flags_kept_same flags_kept_filter by blast
qed

lemma invoice_update_flags: "flags_kept d (snd (invoice_update d i form))"
proof (cases "get_facture d i")
  case None
  then show ?thesis by (simp add: invoice_update_def flags_kept_same)
next
  case (Some fac)
  then have id: "f_id fac = i" unfolding get_facture_def using find_key_Some by fast
  have "snd (invoice_update d i form) = d
        \<or> (\<exists>fac'. snd (invoice_update d i form) = store_facture d fac'
               \<and> f_id fac' = i \<and> finalized fac' = finalized fac)"
    using Some id
    by (auto simp add: invoice_update_def or_abort_def update_facture_def rollback_def Let_def
        split: sum.splits if_splits)
  then show ?thesis
  proof
    assume "snd (invoice_update d i form) = d"
    then show ?thesis by (simp add: flags_kept_same)
  next
    assume "\<exists>fac'. snd (invoice_update d i form) = store_facture d fac'
               \<and> f_id fac' = i \<and> finalized fac' = finalized fac"
    then obtain fac' where u: "snd (invoice_update d i form) = store_facture d fac'"
      and "f_id fac' = i" and fl: "finalized fac' = finalized fac" by blast
    with Some have "get_facture d (f_id fac') = Some fac" by simp
    from flags_kept_store [OF this fl] u show ?thesis by simp
  qed
qed

lemma handle_flags_kept:
  assumes "\<forall>i. r \<noteq> InvoiceToggleFinalize i \<and> r \<noteq> InvoiceFinalize i"
  shows "flags_kept d (snd (handle today d r))"
proof (cases r)
  case (ClientsPost form)
  then show ?thesis by (simp add: flags_kept_same clients_post_factures)
next
  case (ClientUpdate i form)
  then show ?thesis by (simp add: flags_kept_same client_update_factures)
next
  case (ClientDelete i)
  then show ?thesis by (simp add: flags_kept_same client_delete_factures)
next
  case (ProductsPost form)
  then show ?thesis by (simp add: flags_kept_same products_post_factures)
next
  case (ProductUpdate i form)
  then show ?thesis by (simp add: flags_kept_same product_update_factures)
next
  case (ProductDelete i)
  then show ?thesis by (simp add: flags_kept_same product_delete_factures)
next
  case (StockEntryPost form)
  then show ?thesis by (simp add: flags_kept_same stock_entry_factures)
next
  case (InvoiceNew form)
  then show ?thesis by (simp add: invoice_new_flags)
next
  case (InvoiceUpdate i form)
  then show ?thesis by (simp add: invoice_update_flags)
next
  case (InvoiceDelete i)
  then show ?thesis by (simp add: invoice_delete_flags)
next
  case (InvoiceToggleFinalize i)
  with assms show ?thesis by simp
next
  case (InvoiceAddLine i form)
  then show ?thesis by (simp add: flags_kept_same invoice_add_line_factures)
next
  case (InvoiceAddReturn i form)
  then show ?thesis by (simp add: flags_kept_same invoice_add_return_factures)
next
  case (InvoiceFinalize i)
  with assms show ?thesis by simp
next
  case (PaymentNew form)
  then show ?thesis by (simp add: flags_kept_same payment_new_factures)
next
  case (PaymentViewPost i form)
  then show ?thesis by (simp add: flags_kept_same payment_view_post_factures)
qed

lemma distinct_map_replace:
  assumes "\<And>x. key (g x) = key x" and "distinct (map key xs)"
  shows "distinct (map key (map g xs))"
proof -
  have "map key (map g xs) = map key xs"
    by (induction xs) (simp_all add: assms(1))
  with assms(2) show ?thesis by (simp only:)
qed

lemma store_facture_distinct:
  assumes "distinct (map f_id (factures d))" and "get_facture d i = Some fac"
    and "f_id fac' = i" and "fac' = g fac"
  shows "store_facture d fac' =
           d\<lparr>factures := map (\<lambda>f. if f_id f = i then g f else f) (factures d)\<rparr>"
proof -
  from assms(2) have fac: "fac \<in> set (factures d)" "f_id fac = i"
    unfolding get_facture_def using find_key_Some by fast+
  have "f = fac" if "f \<in> set (factures d)" "f_id f = i" for f
    using assms(1) that fac by (metis distinct_map inj_onD)
  then have "map (\<lambda>f. if f_id f = f_id fac' then fac' else f) (factures d)
             = map (\<lambda>f. if f_id f = i then g f else f) (factures d)"
    using assms(3,4) by (intro map_cong) auto
  then show ?thesis by (simp add: store_facture_def)
qed

text \<open>
  C7. The state of an invoice is its boolean \<open>finalized\<close> flag, so there are two states.
  In a state where the invoice keys are distinct, the toggle request on a stored invoice
  negates the flag of that invoice and changes nothing else: every other field of the
  invoice, every other invoice and every other table are as before, and a second toggle
  gives back the first state, so the move is possible in both directions. The finalize
  request sets the flag of that invoice and changes nothing else. Every other write
  request of the application leaves the flag of every invoice that it keeps as it was.
\<close>

theorem finalize_toggle:
  assumes "distinct (map f_id (factures d))" and "get_facture d iid = Some fac"
  shows "invoice_toggle_finalize d iid =
           (Redirect ''invoice_new'' (Some Success),
            d\<lparr>factures := map (\<lambda>f. if f_id f = iid then f\<lparr>finalized := \<not> finalized f\<rparr> else f)
                              (factures d)\<rparr>)
         \<and> get_facture (snd (invoice_toggle_finalize d iid)) iid
             = Some (fac\<lparr>finalized := \<not> finalized fac\<rparr>)
         \<and> snd (invoice_toggle_finalize (snd (invoice_toggle_finalize d iid)) iid) = d
         \<and> invoice_finalize d iid =
           (Redirect ''invoice_view'' (Some Success),
            d\<lparr>factures := map (\<lambda>f. if f_id f = iid then f\<lparr>finalized := True\<rparr> else f)
                              (factures d)\<rparr>)
         \<and> (\<forall>r today. (\<forall>i. r \<noteq> InvoiceToggleFinalize i \<and> r \<noteq> InvoiceFinalize i) \<longrightarrow>
                flags_kept d (snd (handle today d r)))"
proof -
  let ?flip = "\<lambda>f. f\<lparr>finalized := \<not> finalized f\<rparr>"
  let ?d1 = "d\<lparr>factures := map (\<lambda>f. if f_id f = iid then ?flip f else f) (factures d)\<rparr>"
  from assms(2) have id: "f_id fac = iid"
    unfolding get_facture_def using find_key_Some by fast
  have st: "store_facture d (?flip fac) = ?d1"
    using store_facture_distinct [OF assms, of "?flip fac" ?flip] id by simp
  have t1: "invoice_toggle_finalize d iid = (Redirect ''invoice_new'' (Some Success), ?d1)"
    using assms(2) st by (simp add: invoice_toggle_finalize_def)
  have g1: "get_facture ?d1 iid = Some (?flip fac)"
    using get_facture_store [of d "?flip fac" iid] assms(2) id st by simp
  have pk1: "distinct (map f_id (factures ?d1))"
  proof -
    have "distinct (map f_id (map (\<lambda>f. if f_id f = iid then ?flip f else f) (factures d)))"
      by (rule distinct_map_replace [OF _ assms(1)]) simp
    then show ?thesis by simp
  qed
  have st2: "store_facture ?d1 (?flip (?flip fac))
       = ?d1\<lparr>factures := map (\<lambda>f. if f_id f = iid then ?flip f else f) (factures ?d1)\<rparr>"
    using store_facture_distinct [OF pk1 g1, of "?flip (?flip fac)" ?flip] id by simp
  have twice: "map (\<lambda>f. if f_id f = iid then ?flip f else f)
                (map (\<lambda>f. if f_id f = iid then ?flip f else f) (factures d)) = factures d"
    by (induction "factures d") (simp_all add: map_idI)
  have t2: "snd (invoice_toggle_finalize ?d1 iid) = d"
    using g1 st2 twice by (simp add: invoice_toggle_finalize_def)
  have fin: "invoice_finalize d iid =
           (Redirect ''invoice_view'' (Some Success),
            d\<lparr>factures := map (\<lambda>f. if f_id f = iid then f\<lparr>finalized := True\<rparr> else f)
                              (factures d)\<rparr>)"
    using store_facture_distinct [OF assms, of "fac\<lparr>finalized := True\<rparr>" "\<lambda>f. f\<lparr>finalized := True\<rparr>"]
      id assms(2)
    by (simp add: invoice_finalize_def)
  from t1 g1 t2 fin handle_flags_kept show ?thesis by simp
qed

theorem finalize_toggle_witness:
  "distinct (map f_id (factures db_guard))
   \<and> get_facture db_guard 1 = Some (factures db_guard ! 0)
   \<and> get_facture db_guard 2 = Some (factures db_guard ! 1)
   \<and> map finalized (factures db_guard) = [True, False]
   \<and> map finalized (factures (snd (invoice_toggle_finalize db_guard 2))) = [True, True]
   \<and> map finalized (factures (snd (invoice_toggle_finalize db_guard 1))) = [False, False]
   \<and> snd (invoice_toggle_finalize (snd (invoice_toggle_finalize db_guard 2)) 2) = db_guard
   \<and> snd (invoice_toggle_finalize (snd (invoice_toggle_finalize db_guard 1)) 1) = db_guard
   \<and> map finalized (factures (snd (invoice_finalize db_guard 2))) = [True, True]
   \<and> map finalized (factures (snd (invoice_finalize db_guard 1))) = [True, False]
   \<and> map_option f_numero (get_facture (snd (handle 7 db_guard (InvoiceUpdate 2 form_move_invoice))) 2)
       = Some ''F9''
   \<and> map_option finalized (get_facture (snd (handle 7 db_guard (InvoiceUpdate 2 form_move_invoice))) 2)
       = Some False"
proof -
  have pk: "distinct (map f_id (factures db_guard))"
    by (simp add: db_guard_def empty_db_def)
  have g1: "get_facture db_guard 1 = Some (factures db_guard ! 0)"
    and g2: "get_facture db_guard 2 = Some (factures db_guard ! 1)"
    by (simp_all add: get_facture_def db_guard_def empty_db_def)
  have fl: "map finalized (factures db_guard) = [True, False]"
    by (simp add: db_guard_def empty_db_def)
  note r1 = finalize_toggle [OF pk g1]
  note r2 = finalize_toggle [OF pk g2]
  have t2: "map finalized (factures (snd (invoice_toggle_finalize db_guard 2))) = [True, True]"
    using r2 by (simp add: db_guard_def empty_db_def)
  have t1: "map finalized (factures (snd (invoice_toggle_finalize db_guard 1))) = [False, False]"
    using r1 by (simp add: db_guard_def empty_db_def)
  have tt2: "snd (invoice_toggle_finalize (snd (invoice_toggle_finalize db_guard 2)) 2) = db_guard"
    using r2 by blast
  have tt1: "snd (invoice_toggle_finalize (snd (invoice_toggle_finalize db_guard 1)) 1) = db_guard"
    using r1 by blast
  have f2: "map finalized (factures (snd (invoice_finalize db_guard 2))) = [True, True]"
    using r2 by (simp add: db_guard_def empty_db_def)
  have f1: "map finalized (factures (snd (invoice_finalize db_guard 1))) = [True, False]"
    using r1 by (simp add: db_guard_def empty_db_def)
  have s: "py_strip ''F9'' = ''F9''"
    by (simp add: py_strip_def py_isspace_def)
  have u: "get_facture (snd (handle 7 db_guard (InvoiceUpdate 2 form_move_invoice))) 2
      = Some \<lparr>f_id = 2, f_numero = ''F9'', date_vente = 0, f_client_id = 3, nbr_colis = 4,
               finalized = False\<rparr>"
    by (simp add: invoice_update_def or_abort_def update_facture_def store_facture_def
        field_truthy_def form_conv_def form_conv_or_def get_facture_def form_move_invoice_def s
        db_guard_def empty_db_def)
  from r2 have "\<forall>r today. (\<forall>i. r \<noteq> InvoiceToggleFinalize i \<and> r \<noteq> InvoiceFinalize i) \<longrightarrow>
                flags_kept db_guard (snd (handle today db_guard r))"
    by blast
  from this [rule_format, of "InvoiceUpdate 2 form_move_invoice" 7]
  have kept: "flags_kept db_guard (snd (handle 7 db_guard (InvoiceUpdate 2 form_move_invoice)))"
    by simp
  have un: "map_option f_numero
      (get_facture (snd (handle 7 db_guard (InvoiceUpdate 2 form_move_invoice))) 2) = Some ''F9''"
    using u by simp
  have uf: "map_option finalized
      (get_facture (snd (handle 7 db_guard (InvoiceUpdate 2 form_move_invoice))) 2) = Some False"
    using kept g2 u unfolding flags_kept_def by (auto simp add: db_guard_def empty_db_def)
  from pk g1 g2 fl t2 t1 tt2 tt1 f2 f1 un uf show ?thesis by blast
qed

subsection \<open>Invoice keys in reachable states\<close>

text \<open>
  The properties above that speak of a join with the invoices assume that no two invoices
  have the same key. The store assigns keys so: a new invoice gets a key above all
  stored ones, and no handler changes a key. Every state that the application reaches
  from the empty store therefore meets the assumption.
\<close>

lemma fold_max_ge: "a \<le> fold max ids (a::int)"
proof (induction ids arbitrary: a)
  case Nil
  show ?case by simp
next
  case (Cons x ids)
  have "a \<le> max x a" by simp
  also have "\<dots> \<le> fold max ids (max x a)" by (rule Cons.IH)
  finally show ?case by simp
qed

lemma fold_max_ge_elem: "x \<in> set ids \<Longrightarrow> x \<le> fold max ids (a::int)"
proof (induction ids arbitrary: a)
  case Nil
  then show ?case by simp
next
  case (Cons y ids)
  show ?case
  proof (cases "x = y")
    case True
    have "x \<le> max y a" using True by simp
    also have "\<dots> \<le> fold max ids (max y a)" by (rule fold_max_ge)
    finally show ?thesis by simp
  next
    case False
    with Cons.prems have "x \<in> set ids" by simp
    then show ?thesis using Cons.IH by simp
  qed
qed

lemma next_id_fresh: "next_id ids \<notin> set ids"
proof
  assume "next_id ids \<in> set ids"
  then have "next_id ids \<le> fold max ids 0" by (rule fold_max_ge_elem)
  then show False by (simp add: next_id_def)
qed

lemma store_facture_keys: "map f_id (factures (store_facture d fac')) = map f_id (factures d)"
proof -
  have "map f_id (map (\<lambda>f. if f_id f = f_id fac' then fac' else f) xs) = map f_id xs" for xs
    by (induction xs) simp_all
  moreover have "factures (store_facture d fac')
      = map (\<lambda>f. if f_id f = f_id fac' then fac' else f) (factures d)"
    by (simp add: store_facture_def)
  ultimately show ?thesis by (simp only:)
qed

lemma invoice_new_keys:
  assumes "distinct (map f_id (factures d))"
  shows "distinct (map f_id (factures (snd (invoice_new d form))))"
proof -
  have "factures (snd (invoice_new d form)) = factures d
        \<or> (\<exists>f. factures (snd (invoice_new d form)) = factures d @ [f]
                \<and> f_id f = next_id (map f_id (factures d)))"
    by (auto simp add: invoice_new_def or_abort_def add_facture_def rollback_def Let_def
        split: sum.splits)
  then show ?thesis
    using assms next_id_fresh [of "map f_id (factures d)"] by auto
qed

lemma invoice_update_keys:
  "map f_id (factures (snd (invoice_update d i form))) = map f_id (factures d)"
proof -
  have "snd (invoice_update d i form) = d
        \<or> (\<exists>fac'. snd (invoice_update d i form) = store_facture d fac')"
    by (auto simp add: invoice_update_def or_abort_def update_facture_def rollback_def Let_def
        split: option.splits sum.splits if_splits)
  then show ?thesis using store_facture_keys by auto
qed

lemma invoice_delete_keys:
  assumes "distinct (map f_id (factures d))"
  shows "distinct (map f_id (factures (snd (invoice_delete d i))))"
proof -
  have "factures (snd (invoice_delete d i)) = factures d
        \<or> (\<exists>k. factures (snd (invoice_delete d i)) = filter (\<lambda>x. f_id x \<noteq> k) (factures d))"
    by (auto simp add: invoice_delete_def delete_facture_def Let_def split: option.splits)
  then show ?thesis using assms by (auto simp add: distinct_map_filter)
qed

lemma invoice_toggle_finalize_keys:
  "map f_id (factures (snd (invoice_toggle_finalize d i))) = map f_id (factures d)"
  by (simp add: invoice_toggle_finalize_def store_facture_keys split: option.splits)

lemma invoice_finalize_keys:
  "map f_id (factures (snd (invoice_finalize d i))) = map f_id (factures d)"
  by (simp add: invoice_finalize_def store_facture_keys split: option.splits)

lemma handle_keeps_invoice_keys:
  assumes "distinct (map f_id (factures d))"
  shows "distinct (map f_id (factures (snd (handle today d r))))"
proof (cases r)
  case (InvoiceNew form)
  with assms show ?thesis by (simp add: invoice_new_keys)
next
  case (InvoiceUpdate i form)
  with assms show ?thesis by (simp add: invoice_update_keys)
next
  case (InvoiceDelete i)
  with assms show ?thesis by (simp add: invoice_delete_keys)
next
  case (InvoiceToggleFinalize i)
  with assms show ?thesis by (simp add: invoice_toggle_finalize_keys)
next
  case (InvoiceFinalize i)
  with assms show ?thesis by (simp add: invoice_finalize_keys)
qed (use assms in \<open>simp_all add: clients_post_factures client_update_factures
      client_delete_factures products_post_factures product_update_factures
      product_delete_factures stock_entry_factures invoice_add_line_factures
      invoice_add_return_factures payment_new_factures payment_view_post_factures\<close>)

lemma reachable_invoice_keys: "reachable d \<Longrightarrow> distinct (map f_id (factures d))"
proof (induction rule: reachable.induct)
  case start
  show ?case by (simp add: empty_db_def)
next
  case (request d today r)
  then show ?case by (simp add: handle_keeps_invoice_keys)
qed

end
